theory Spec2Isabelle
  imports Main "HOL-Library.Product_Lexorder" "HOL-Library.Sublist" "HOL-Library.Multiset"
begin

section \<open>Issue ranking (issue\_detector.py)\<close>

text \<open>
  An issue is a Python dictionary. The ranking reads the keys \<open>severity\<close> and \<open>line\<close>
  (both may be absent: the synthetic time-out and error issues carry no \<open>line\<close>) and adds
  the key \<open>priority\<close>; every other key is carried along untouched. \<open>None\<close> stands for an
  absent key, \<open>extra\<close> for the keys the ranking never looks at. Line numbers are Python
  integers.
\<close>

record issue =
  itype :: string
  message :: "string option"
  line :: "int option"
  severity :: "string option"
  extra :: "(string \<times> string) list"

record ranked_issue = issue +
  priority :: int

text \<open>The dictionary returned by \<open>analyze_file\<close>, as far as the ranking reads it.\<close>

record issue_report =
  pylint_issues :: "issue list option"
  complexity_issues :: "issue list option"
  maintainability_issues :: "issue list option"

text \<open>\<open>issues.get(key, [])\<close>\<close>

definition get_list :: "'a list option \<Rightarrow> 'a list" where
  "get_list v = (case v of None \<Rightarrow> [] | Some xs \<Rightarrow> xs)"

text \<open>\<open>{**issue, 'priority': p}\<close>\<close>

definition with_priority :: "int \<Rightarrow> issue \<Rightarrow> ranked_issue" where
  "with_priority p i =
     \<lparr>itype = itype i, message = message i, line = line i, severity = severity i,
      extra = extra i, priority = p\<rparr>"

text \<open>The dictionary without its \<open>priority\<close> key.\<close>

definition unranked :: "ranked_issue \<Rightarrow> issue" where
  "unranked r =
     \<lparr>itype = itype r, message = message r, line = line r, severity = severity r,
      extra = extra r\<rparr>"

text \<open>\<open>3 if pylint_issue.get('severity') == 'error' else 2\<close>\<close>

definition pylint_priority :: "issue \<Rightarrow> int" where
  "pylint_priority i = (if severity i = Some ''error'' then 3 else 2)"

text \<open>The three loops that fill \<open>all_issues\<close>, in the order of the source.\<close>

definition all_issues :: "issue_report \<Rightarrow> ranked_issue list" where
  "all_issues d =
     map (\<lambda>i. with_priority (pylint_priority i) i) (get_list (pylint_issues d)) @
     map (with_priority 2) (get_list (complexity_issues d)) @
     map (with_priority 1) (get_list (maintainability_issues d))"

text \<open>
  The sort key \<open>(-x['priority'], x.get('line', 0))\<close>. Python compares tuples
  lexicographically, which is the order of pairs in \<open>Product_Lexorder\<close>.
\<close>

definition issue_key :: "ranked_issue \<Rightarrow> int \<times> int" where
  "issue_key x = (- priority x, (case line x of None \<Rightarrow> 0 | Some l \<Rightarrow> l))"

text \<open>
  \<open>list.sort\<close> is a stable sort; a stable sort by a key has one result only, so the
  insertion sort \<open>sort_key\<close> computes what Python's sort computes.
\<close>

definition get_issue_priority :: "issue_report \<Rightarrow> ranked_issue list" where
  "get_issue_priority d = sort_key issue_key (all_issues d)"

text \<open>The three issues of the ranking example: two style issues and a complexity issue.\<close>

definition style_error_5 :: issue where
  "style_error_5 = \<lparr>itype = ''pylint'', message = Some ''undefined variable'',
     line = Some 5, severity = Some ''error'', extra = []\<rparr>"

definition style_warning_3 :: issue where
  "style_warning_3 = \<lparr>itype = ''pylint'', message = Some ''unused import'',
     line = Some 3, severity = Some ''warning'', extra = []\<rparr>"

definition complexity_5 :: issue where
  "complexity_5 = \<lparr>itype = ''complexity'', message = Some ''too complex'',
     line = Some 5, severity = Some ''warning'', extra = []\<rparr>"

definition example_issues :: issue_report where
  "example_issues = \<lparr>pylint_issues = Some [style_error_5, style_warning_3],
     complexity_issues = Some [complexity_5], maintainability_issues = None\<rparr>"

section \<open>Python strings, lists and paths\<close>

text \<open>
  The operations of Python's \<open>str\<close>, \<open>list\<close> and \<open>os.path\<close> (POSIX flavour) that the
  editor calls, each written after the behaviour of the built-in it stands for. A
  \<open>string\<close> is a list of bytes: a text stands as its UTF-8 encoding, on which substring
  search, replacement, splitting at line feeds and the translation of line terminators
  do what Python's operations do on the decoded text.
\<close>

abbreviation NL :: char where
  "NL \<equiv> CHR 0x0A"

abbreviation CR :: char where
  "CR \<equiv> CHR 0x0D"

text \<open>
  What a file opened for reading in text mode hands over (\<open>newline=None\<close>, universal
  newlines, on every platform): each CR LF and each lone CR of the file becomes one LF.
\<close>

fun universal_newlines :: "string \<Rightarrow> string" where
  "universal_newlines [] = []"
| "universal_newlines [c] = [if c = CR then NL else c]"
| "universal_newlines (c # d # ds) =
     (if c = CR \<and> d = NL then NL # universal_newlines ds
      else if c = CR then NL # universal_newlines (d # ds)
      else c # universal_newlines (d # ds))"

text \<open>\<open>s.startswith(p)\<close> and \<open>s.endswith(p)\<close>\<close>

definition startswith :: "string \<Rightarrow> string \<Rightarrow> bool" where
  "startswith s p = (take (length p) s = p)"

definition endswith :: "string \<Rightarrow> string \<Rightarrow> bool" where
  "endswith s p = (length p \<le> length s \<and> drop (length s - length p) s = p)"




text \<open>\<open>s.replace(c, new)\<close> for a pattern of one character \<open>c\<close>: every occurrence.\<close>

definition replace_char :: "string \<Rightarrow> char \<Rightarrow> string \<Rightarrow> string" where
  "replace_char s c new = concat (map (\<lambda>x. if x = c then new else [x]) s)"

text \<open>\<open>s.split(d)\<close> for a separator of one character: never the empty list.\<close>

fun split_on :: "char \<Rightarrow> string \<Rightarrow> string list" where
  "split_on d [] = [[]]"
| "split_on d (c # cs) =
     (if c = d then [] # split_on d cs
      else (case split_on d cs of [] \<Rightarrow> [[c]] | l # ls \<Rightarrow> (c # l) # ls))"

text \<open>\<open>sep.join(xs)\<close>\<close>

fun join :: "string \<Rightarrow> string list \<Rightarrow> string" where
  "join sep [] = []"
| "join sep [x] = x"
| "join sep (x # y # ys) = x @ sep @ join sep (y # ys)"

text \<open>\<open>f.readlines()\<close> on the text read from a file, its line terminators translated
  already: the lines, each with its LF.\<close>

fun readlines :: "string \<Rightarrow> string list" where
  "readlines [] = []"
| "readlines (c # cs) =
     (if c = NL then [NL] # readlines cs
      else (case readlines cs of [] \<Rightarrow> [[c]] | l # ls \<Rightarrow> (c # l) # ls))"

text \<open>The slices \<open>xs[:k]\<close> and \<open>xs[k:]\<close>; a negative \<open>k\<close> counts from the end.\<close>

definition slice_to :: "'a list \<Rightarrow> int \<Rightarrow> 'a list" where
  "slice_to xs k =
     (if k < 0 then take (nat (int (length xs) + k)) xs else take (nat k) xs)"

definition slice_from :: "'a list \<Rightarrow> int \<Rightarrow> 'a list" where
  "slice_from xs k =
     (if k < 0 then drop (nat (int (length xs) + k)) xs else drop (nat k) xs)"

text \<open>\<open>os.path.basename\<close>, \<open>os.path.dirname\<close> and \<open>os.path.join\<close> of \<open>posixpath\<close>.\<close>

definition basename :: "string \<Rightarrow> string" where
  "basename p = rev (takeWhile (\<lambda>c. c \<noteq> CHR ''/'') (rev p))"

definition dirname :: "string \<Rightarrow> string" where
  "dirname p =
     (let head = rev (dropWhile (\<lambda>c. c \<noteq> CHR ''/'') (rev p))
      in if head \<noteq> [] \<and> head \<noteq> replicate (length head) (CHR ''/'')
         then rev (dropWhile (\<lambda>c. c = CHR ''/'') (rev head))
         else head)"

definition path_join :: "string \<Rightarrow> string \<Rightarrow> string" where
  "path_join a b =
     (if startswith b ''/'' then b
      else if a = [] \<or> endswith a ''/'' then a @ b
      else a @ ''/'' @ b)"

section \<open>The file system\<close>

text \<open>
  A file holds bytes that decode as UTF-8 (\<open>Text\<close>, with the bytes), or bytes that do not:
  \<open>shutil.copy2\<close> copies either, \<open>open(path, 'r', encoding='utf-8').read()\<close> raises
  \<open>UnicodeDecodeError\<close> on the second and translates the line terminators of the first.
  A text is written as it is: the translation of LF on writing is that of the platform,
  and on POSIX there is none. Directories are not modelled: a path exists when a file is
  stored under it.

  A write to the file system (\<open>shutil.copy2\<close>, or \<open>open(path, 'w')\<close> with its
  \<open>write\<close>) may fail for reasons outside the program: a read-only target, a full disk, a
  missing or unwritable directory. The world carries a script of the outcomes of the
  coming writes, one entry for each, an exhausted script meaning that the write
  completes. A write that raises leaves its target untouched, or leaves there whatever
  had been written when it failed. The failure of \<open>os.makedirs\<close> before a copy is the
  same to the caller as a copy that raises with its target untouched, and is not told
  apart from it.
\<close>

datatype file_data = Text string | Undecodable

datatype io_outcome = Completes | Raises_untouched | Raises_leaving file_data

record world =
  files :: "string \<rightharpoonup> file_data"
  now :: string
  io_script :: "io_outcome list"

text \<open>
  The exceptions that reach a handler of the editor. \<open>SyntaxError msg lineno offset\<close> and
  \<open>ParserFailure text\<close> are what \<open>ast.parse\<close> raises: a syntax error, or any other
  exception with its \<open>str()\<close>.
\<close>

datatype parse_error =
    SyntaxError string "int option" "int option"
  | ParserFailure string

datatype py_exn =
    FileNotFoundError string
  | UnicodeDecodeError
  | SameFileError
  | OSError
  | ParseException parse_error

definition next_outcome :: "world \<Rightarrow> io_outcome" where
  "next_outcome w = (case io_script w of [] \<Rightarrow> Completes | out # _ \<Rightarrow> out)"

definition advance :: "world \<Rightarrow> world" where
  "advance w = w\<lparr>io_script := tl (io_script w)\<rparr>"

text \<open>\<open>os.path.exists(path)\<close>\<close>

definition path_exists :: "world \<Rightarrow> string \<Rightarrow> bool" where
  "path_exists w p = (files w p \<noteq> None)"

text \<open>\<open>with open(path, 'r', encoding='utf-8') as f: f.read()\<close>, and the same with the
  default encoding, taken to be UTF-8.\<close>

definition read_text :: "world \<Rightarrow> string \<Rightarrow> py_exn + string" where
  "read_text w p =
     (case files w p of
        None \<Rightarrow> Inl (FileNotFoundError p)
      | Some Undecodable \<Rightarrow> Inl UnicodeDecodeError
      | Some (Text s) \<Rightarrow> Inr (universal_newlines s))"

text \<open>The write of \<open>d\<close> to \<open>p\<close> under the next outcome of the script.\<close>

definition store :: "world \<Rightarrow> string \<Rightarrow> file_data \<Rightarrow> py_exn option \<times> world" where
  "store w p d =
     (case next_outcome w of
        Completes \<Rightarrow> (None, (advance w)\<lparr>files := (files w)(p \<mapsto> d)\<rparr>)
      | Raises_untouched \<Rightarrow> (Some OSError, advance w)
      | Raises_leaving r \<Rightarrow> (Some OSError, (advance w)\<lparr>files := (files w)(p \<mapsto> r)\<rparr>))"

text \<open>\<open>with open(path, 'w', encoding='utf-8') as f: f.write(s)\<close>\<close>

definition write_text :: "world \<Rightarrow> string \<Rightarrow> string \<Rightarrow> py_exn option \<times> world" where
  "write_text w p s = store w p (Text s)"

text \<open>
  \<open>shutil.copy2(src, dst)\<close>: a missing source and a destination that is the source raise
  before anything is written.
\<close>

definition copy2 :: "world \<Rightarrow> string \<Rightarrow> string \<Rightarrow> py_exn option \<times> world" where
  "copy2 w src dst =
     (case files w src of
        None \<Rightarrow> (Some (FileNotFoundError src), w)
      | Some d \<Rightarrow> if src = dst then (Some SameFileError, w) else store w dst d)"

section \<open>The code editor (code\_editor.py)\<close>

text \<open>
  The syntax tree of \<open>ast.parse\<close>: a node has its class, its position (\<open>lineno\<close>,
  \<open>end_lineno\<close>; whatever the fields hold for a node without a position, which the
  editor never reads) and its child nodes in the order of \<open>ast.iter_child_nodes\<close>. The
  editor tells \<open>ast.FunctionDef\<close> from every other class; \<open>ast.AsyncFunctionDef\<close>,
  which is not a subclass of it, is kept apart to speak about it.
\<close>

datatype node_class = FunctionDef string | AsyncFunctionDef string | OtherNode string

datatype ast = Node (node_class: node_class) (lineno: int) (end_lineno: int) (children: "ast list")

text \<open>
  \<open>ast.walk(tree)\<close>: the standard library keeps a queue, takes the node at its front,
  appends the children of that node at its back and yields the node: breadth first.
\<close>

function walk_queue :: "ast list \<Rightarrow> ast list" where
  "walk_queue [] = []"
| "walk_queue (Node c s e ch # todo) = Node c s e ch # walk_queue (todo @ ch)"
  by pat_completeness auto
termination
  by (relation "measure (size_list size)") auto

definition walk :: "ast \<Rightarrow> ast list" where
  "walk tree = walk_queue [tree]"

text \<open>\<open>isinstance(node, ast.FunctionDef) and node.name == function_name\<close>\<close>

definition is_function_named :: "string \<Rightarrow> ast \<Rightarrow> bool" where
  "is_function_named name n = (node_class n = FunctionDef name)"

text \<open>The name a definition node bears, for the two classes of function definitions.\<close>

fun def_name :: "ast \<Rightarrow> string option" where
  "def_name (Node (FunctionDef name) s e ch) = Some name"
| "def_name (Node (AsyncFunctionDef name) s e ch) = Some name"
| "def_name (Node (OtherNode cls) s e ch) = None"

text \<open>
  The instance: \<open>self.backup_dir\<close>. The parser \<open>ast.parse\<close> belongs to Python, not to
  the editor: every operation below takes it as its first argument \<open>P\<close>.
\<close>

record code_editor =
  backup_dir :: string

text \<open>The \<open>error\<close> entry of a result: the text the editor stores there.\<close>

datatype edit_error =
    Raised py_exn
  | SyntaxValidationFailed "string option"
  | OldCodeNotFound
  | NoChangesMade
  | InvalidLineNumber int nat
  | FunctionNotFound string

text \<open>The dictionary of \<open>validate_python_syntax\<close>.\<close>

record validation =
  valid :: bool
  verror :: "string option"
  vline :: "int option"
  voffset :: "int option"

text \<open>
  The dictionary of \<open>apply_edit\<close>, which \<open>apply_line_edit\<close> and \<open>apply_function_edit\<close>
  return as well after \<open>result.update(edit_result)\<close>. An absent \<open>restored\<close> or
  \<open>validation\<close> key reads as \<open>False\<close> and \<open>None\<close>.
\<close>

record edit_result =
  success :: bool
  backup_path :: "string option"
  error :: "edit_error option"
  validation :: "validation option"
  restored :: bool


definition initial_result :: edit_result where
  "initial_result =
     \<lparr>success = False, backup_path = None, error = None, validation = None,
      restored = False\<rparr>"

text \<open>The name \<open>create_backup\<close> gives to the copy.\<close>

definition backup_name :: "code_editor \<Rightarrow> world \<Rightarrow> string \<Rightarrow> string" where
  "backup_name self w file_path =
     (let file_name = basename file_path;
          bname = file_name @ ''.'' @ now w @ ''.bak'';
          rel_path = dirname file_path;
          backup_subdir =
            path_join (backup_dir self)
              (replace_char (replace_char rel_path (CHR '':'') '''') (CHR 0x5C) ''_'')
      in path_join backup_subdir bname)"

definition create_backup :: "code_editor \<Rightarrow> world \<Rightarrow> string \<Rightarrow> (py_exn + string) \<times> world" where
  "create_backup self w file_path =
     (if \<not> path_exists w file_path then (Inl (FileNotFoundError file_path), w)
      else
        (let backup_path = backup_name self w file_path
         in case copy2 w file_path backup_path of
              (Some e, w') \<Rightarrow> (Inl e, w')
            | (None, w') \<Rightarrow> (Inr backup_path, w')))"

definition validate_python_syntax :: "(string \<Rightarrow> parse_error + ast) \<Rightarrow> string \<Rightarrow> validation" where
  "validate_python_syntax P src =
     (case P src of
        Inr tree \<Rightarrow> \<lparr>valid = True, verror = None, vline = None, voffset = None\<rparr>
      | Inl (SyntaxError msg ln off) \<Rightarrow>
          \<lparr>valid = False, verror = Some msg, vline = ln, voffset = off\<rparr>
      | Inl (ParserFailure txt) \<Rightarrow>
          \<lparr>valid = False, verror = Some txt, vline = None, voffset = None\<rparr>)"

text \<open>
  The handler \<open>except Exception as e\<close> of \<open>apply_edit\<close>: the error is stored, and if a
  backup was made and still exists it is copied back; a copy that raises is passed over
  in silence.
\<close>

definition on_exception :: "edit_result \<Rightarrow> py_exn \<Rightarrow> world \<Rightarrow> string \<Rightarrow> edit_result \<times> world" where
  "on_exception result e w file_path =
     (let result = result\<lparr>error := Some (Raised e)\<rparr>
      in case backup_path result of
           None \<Rightarrow> (result, w)
         | Some bp \<Rightarrow>
             if bp \<noteq> [] \<and> path_exists w bp
             then (case copy2 w bp file_path of
                     (None, w') \<Rightarrow> (result\<lparr>restored := True\<rparr>, w')
                   | (Some e', w') \<Rightarrow> (result, w'))
             else (result, w))"

text \<open>The write of the new content and what follows it.\<close>

definition write_step :: "edit_result \<Rightarrow> world \<Rightarrow> string \<Rightarrow> string \<Rightarrow> edit_result \<times> world" where
  "write_step result w file_path new_content =
     (case write_text w file_path new_content of
        (None, w') \<Rightarrow> (result\<lparr>success := True\<rparr>, w')
      | (Some e, w') \<Rightarrow> on_exception result e w' file_path)"

text \<open>\<open>if create_backup: result['backup_path'] = self.create_backup(file_path)\<close>\<close>

definition backup_step :: "code_editor \<Rightarrow> world \<Rightarrow> string \<Rightarrow> bool \<Rightarrow> (py_exn + string option) \<times> world" where
  "backup_step self w file_path create_backup_flag =
     (if create_backup_flag
      then (case create_backup self w file_path of
              (Inl e, w') \<Rightarrow> (Inl e, w')
            | (Inr bp, w') \<Rightarrow> (Inr (Some bp), w'))
      else (Inr None, w))"

text \<open>The validation gate: closed to a \<open>.py\<close> file whose new content does not parse.\<close>

definition gate_open :: "(string \<Rightarrow> parse_error + ast) \<Rightarrow> bool \<Rightarrow> string \<Rightarrow> string \<Rightarrow> bool" where
  "gate_open P validate file_path new_content =
     (\<not> (validate \<and> endswith file_path ''.py'') \<or> valid (validate_python_syntax P new_content))"

definition apply_edit ::
  "(string \<Rightarrow> parse_error + ast) \<Rightarrow> code_editor \<Rightarrow> world \<Rightarrow> string \<Rightarrow> string \<Rightarrow> bool \<Rightarrow> bool
     \<Rightarrow> edit_result \<times> world" where
  "apply_edit P self w file_path new_content validate create_backup_flag =
     (case backup_step self w file_path create_backup_flag of
        (Inl e, w1) \<Rightarrow> on_exception initial_result e w1 file_path
      | (Inr bp, w1) \<Rightarrow>
          (let result = initial_result\<lparr>backup_path := bp\<rparr>
           in if validate \<and> endswith file_path ''.py''
              then (let v = validate_python_syntax P new_content;
                        result = result\<lparr>validation := Some v\<rparr>
                    in if \<not> valid v
                       then (result\<lparr>error := Some (SyntaxValidationFailed (verror v))\<rparr>, w1)
                       else write_step result w1 file_path new_content)
              else write_step result w1 file_path new_content))"






text \<open>The splice of \<open>apply_function_edit\<close>: the lines of the content without the span of the
  node, the new text in its place.\<close>

definition splice :: "string \<Rightarrow> int \<Rightarrow> int \<Rightarrow> string \<Rightarrow> string" where
  "splice content start_line end_line new_function_code =
     (let lines = split_on NL content;
          new_lines = slice_to lines (start_line - 1) @ [new_function_code] @
                      slice_from lines end_line
      in join [NL] new_lines)"

definition apply_function_edit ::
  "(string \<Rightarrow> parse_error + ast) \<Rightarrow> code_editor \<Rightarrow> world \<Rightarrow> string \<Rightarrow> string \<Rightarrow> string
     \<Rightarrow> bool \<Rightarrow> bool \<Rightarrow> edit_result \<times> world" where
  "apply_function_edit P self w file_path function_name new_function_code validate
       create_backup_flag =
     (case read_text w file_path of
        Inl e \<Rightarrow> (initial_result\<lparr>error := Some (Raised e)\<rparr>, w)
      | Inr content \<Rightarrow>
          (case P content of
             Inl pe \<Rightarrow> (initial_result\<lparr>error := Some (Raised (ParseException pe))\<rparr>, w)
           | Inr tree \<Rightarrow>
               (case find (is_function_named function_name) (walk tree) of
                  None \<Rightarrow>
                    (initial_result\<lparr>error := Some (FunctionNotFound function_name)\<rparr>, w)
                | Some function_node \<Rightarrow>
                    apply_edit P self w file_path
                      (splice content (lineno function_node) (end_lineno function_node)
                         new_function_code)
                      validate create_backup_flag)))"

text \<open>The dictionary of \<open>compare_with_backup\<close>; an absent \<open>error\<close> key reads as \<open>None\<close>.
  The size difference counts bytes where Python's \<open>len\<close> counts characters.\<close>

record comparison =
  identical :: bool
  current_lines :: nat
  backup_lines :: nat
  size_difference :: int
  cmp_error :: "py_exn option"

definition compare_with_backup :: "world \<Rightarrow> string \<Rightarrow> string \<Rightarrow> comparison" where
  "compare_with_backup w file_path backup_file =
     (let result = \<lparr>identical = False, current_lines = 0, backup_lines = 0,
                     size_difference = 0, cmp_error = None\<rparr>
      in case read_text w file_path of
           Inl e \<Rightarrow> result\<lparr>cmp_error := Some e\<rparr>
         | Inr current_content \<Rightarrow>
             (case read_text w backup_file of
                Inl e \<Rightarrow> result\<lparr>cmp_error := Some e\<rparr>
              | Inr backup_content \<Rightarrow>
                  result\<lparr>identical := (current_content = backup_content),
                         current_lines := length (split_on NL current_content),
                         backup_lines := length (split_on NL backup_content),
                         size_difference :=
                           int (length current_content) - int (length backup_content)\<rparr>))"

section \<open>The orchestrator (main.py)\<close>





















section \<open>Sample data\<close>

text \<open>
  A finite table of what CPython (3.10 or later) answers to \<open>ast.parse\<close> on the texts of
  the examples below: the syntax error of an unclosed parenthesis, and the trees of
  three small modules, each node with its class, its position and its child nodes. A
  text outside the table is not used by any example.
\<close>

definition assign_tree :: ast where
  "assign_tree =
     Node (OtherNode ''Module'') 0 0
       [Node (OtherNode ''Assign'') 1 1
          [Node (OtherNode ''Name'') 1 1 [Node (OtherNode ''Store'') 0 0 []],
           Node (OtherNode ''Constant'') 1 1 []]]"

definition return_stmt :: "int \<Rightarrow> ast" where
  "return_stmt l = Node (OtherNode ''Return'') l l [Node (OtherNode ''Constant'') l l []]"

definition arguments :: ast where
  "arguments = Node (OtherNode ''arguments'') 0 0 []"

text \<open>A class with a method \<open>f\<close> (lines 2 to 3), then a function \<open>f\<close> of the module
  (lines 4 to 5).\<close>

definition two_f_source :: string where
  "two_f_source =
     ''class A:'' @ [NL] @ ''    def f(self):'' @ [NL] @ ''        return 1'' @ [NL] @
     ''def f():'' @ [NL] @ ''    return 2'' @ [NL]"

definition two_f_tree :: ast where
  "two_f_tree =
     Node (OtherNode ''Module'') 0 0
       [Node (OtherNode ''ClassDef'') 1 3
          [Node (FunctionDef ''f'') 2 3
             [Node (OtherNode ''arguments'') 0 0 [Node (OtherNode ''arg'') 2 2 []],
              return_stmt 3]],
        Node (FunctionDef ''f'') 4 5 [arguments, return_stmt 5]]"

text \<open>A module whose only definition named \<open>f\<close> is a coroutine.\<close>

definition async_f_source :: string where
  "async_f_source = ''async def f():'' @ [NL] @ ''    return 1'' @ [NL]"

definition async_f_tree :: ast where
  "async_f_tree =
     Node (OtherNode ''Module'') 0 0
       [Node (AsyncFunctionDef ''f'') 1 2 [arguments, return_stmt 2]]"

text \<open>The module above with an unclosed parenthesis in the place of its lines 4 to 5.\<close>

definition broken_source :: string where
  "broken_source =
     ''class A:'' @ [NL] @ ''    def f(self):'' @ [NL] @ ''        return 1'' @ [NL] @
     ''x = ('' @ [NL]"

definition new_f_code :: string where
  "new_f_code = ''def f():'' @ [NL] @ ''    return 3''"

definition sample_parse :: "string \<Rightarrow> parse_error + ast" where
  "sample_parse src =
     (if src = ''x = ('' @ [NL]
      then Inl (SyntaxError (CHR 0x27 # ''('' @ [CHR 0x27] @ '' was never closed'') (Some 1) (Some 5))
      else if src = ''x = 1'' @ [NL] \<or> src = ''x = 2'' @ [NL] then Inr assign_tree
      else if src = two_f_source then Inr two_f_tree
      else if src = async_f_source then Inr async_f_tree
      else if src = broken_source
      then Inl (SyntaxError (CHR 0x27 # ''('' @ [CHR 0x27] @ '' was never closed'') (Some 4) (Some 5))
      else Inl (ParserFailure ''not in the table''))"

definition editor0 :: code_editor where
  "editor0 = \<lparr>backup_dir = ''backups''\<rparr>"

text \<open>A world with one Python file \<open>m.py\<close> holding \<open>content\<close>, and a script of outcomes.\<close>

definition py_world :: "string \<Rightarrow> io_outcome list \<Rightarrow> world" where
  "py_world content script =
     \<lparr>files = [''m.py'' \<mapsto> Text content], now = ''20240101_120000'', io_script = script\<rparr>"


definition bin_world :: world where
  "bin_world =
     \<lparr>files = [''logo.png'' \<mapsto> Undecodable], now = ''20240101_120000'', io_script = []\<rparr>"





section \<open>Properties of the ranking\<close>

lemma unranked_with_priority: "unranked (with_priority p i) = i"
  by (simp add: unranked_def with_priority_def)

lemma priority_with_priority: "priority (with_priority p i) = p"
  by (simp add: with_priority_def)

lemma map_unranked_all_issues:
  "map unranked (all_issues d) =
     get_list (pylint_issues d) @ get_list (complexity_issues d) @
     get_list (maintainability_issues d)"
  by (simp add: all_issues_def o_def unranked_with_priority)

lemma map_priority_all_issues:
  "map priority (all_issues d) =
     map pylint_priority (get_list (pylint_issues d)) @
     replicate (length (get_list (complexity_issues d))) 2 @
     replicate (length (get_list (maintainability_issues d))) 1"
  by (simp add: all_issues_def o_def priority_with_priority map_replicate_const)

text \<open>
  C4. The merged list holds the style issues, then the complexity issues, then the
  maintainability issues, each unchanged but for its priority: 3 for a style issue of
  severity \<open>error\<close>, 2 for any other style issue and for every complexity issue, 1 for a
  maintainability issue. The result is a permutation of the merged list, ascending in the
  key \<open>(-priority, line)\<close>, and the issues of any one key stand in the result in their
  merge order (the sort is stable).
\<close>

theorem get_issue_priority_ranks:
  "map unranked (all_issues d) =
     get_list (pylint_issues d) @ get_list (complexity_issues d) @
     get_list (maintainability_issues d)
   \<and> map priority (all_issues d) =
     map (\<lambda>i. if severity i = Some ''error'' then 3 else 2) (get_list (pylint_issues d)) @
     replicate (length (get_list (complexity_issues d))) 2 @
     replicate (length (get_list (maintainability_issues d))) 1
   \<and> mset (get_issue_priority d) = mset (all_issues d)
   \<and> sorted (map issue_key (get_issue_priority d))
   \<and> filter (\<lambda>x. issue_key x = k) (get_issue_priority d) =
     filter (\<lambda>x. issue_key x = k) (all_issues d)"
proof -
  have prio: "pylint_priority = (\<lambda>i. if severity i = Some ''error'' then 3 else 2)"
    by (rule ext) (simp add: pylint_priority_def)
  have "map priority (all_issues d) =
     map (\<lambda>i. if severity i = Some ''error'' then 3 else 2) (get_list (pylint_issues d)) @
     replicate (length (get_list (complexity_issues d))) 2 @
     replicate (length (get_list (maintainability_issues d))) 1"
    using map_priority_all_issues [of d] unfolding prio .
  moreover have "mset (get_issue_priority d) = mset (all_issues d)"
    by (simp add: get_issue_priority_def)
  moreover have "sorted (map issue_key (get_issue_priority d))"
    by (simp add: get_issue_priority_def)
  moreover have "filter (\<lambda>x. issue_key x = k) (get_issue_priority d) =
     filter (\<lambda>x. issue_key x = k) (all_issues d)"
    by (simp add: get_issue_priority_def sort_key_stable)
  ultimately show ?thesis
    using map_unranked_all_issues [of d] by blast
qed

text \<open>
  The ranking example, computed: the style warning of line 3 and the complexity issue of
  line 5 both have priority 2, and the lower line comes first.
\<close>

lemma get_issue_priority_example:
  "get_issue_priority example_issues =
     [with_priority 3 style_error_5, with_priority 2 style_warning_3,
      with_priority 2 complexity_5]"
  by (simp add: get_issue_priority_def all_issues_def example_issues_def get_list_def
      pylint_priority_def issue_key_def with_priority_def style_error_5_def
      style_warning_3_def complexity_5_def)

theorem get_issue_priority_ranks_witness:
  "map priority (all_issues example_issues) = [3, 2, 2]
   \<and> map issue_key (get_issue_priority example_issues) = [(- 3, 5), (- 2, 3), (- 2, 5)]
   \<and> sorted (map issue_key (get_issue_priority example_issues))
   \<and> filter (\<lambda>x. issue_key x = (- 2, 5)) (get_issue_priority example_issues) =
     [with_priority 2 complexity_5]"
proof -
  have a: "all_issues example_issues =
     [with_priority 3 style_error_5, with_priority 2 style_warning_3,
      with_priority 2 complexity_5]"
    by (simp add: all_issues_def example_issues_def get_list_def pylint_priority_def
        style_error_5_def style_warning_3_def)
  have f: "filter (\<lambda>x. issue_key x = (- 2, 5)) (all_issues example_issues) =
     [with_priority 2 complexity_5]"
    unfolding a
    by (simp add: issue_key_def with_priority_def style_error_5_def style_warning_3_def
        complexity_5_def)
  have s: "map issue_key (get_issue_priority example_issues) = [(- 3, 5), (- 2, 3), (- 2, 5)]"
    by (simp add: get_issue_priority_example)
       (simp add: issue_key_def with_priority_def style_error_5_def style_warning_3_def
        complexity_5_def)
  have p: "map priority (all_issues example_issues) = [3, 2, 2]"
    unfolding a by (simp add: priority_with_priority)
  show ?thesis
    using get_issue_priority_ranks [of example_issues "(- 2, 5)"] f s p by simp
qed

section \<open>Facts about the file system and the backup\<close>

lemma files_advance: "files (advance w) = files w"
  by (simp add: advance_def)

lemma store_other: "store w p d = (r, w') \<Longrightarrow> q \<noteq> p \<Longrightarrow> files w' q = files w q"
  by (auto simp: store_def files_advance split: io_outcome.splits)

lemma store_None:
  "store w p d = (None, w') \<Longrightarrow> files w' = (files w)(p \<mapsto> d) \<and> next_outcome w = Completes"
  by (auto simp: store_def files_advance split: io_outcome.splits)

lemma store_Completes:
  "next_outcome w = Completes \<Longrightarrow> store w p d = (None, (advance w)\<lparr>files := (files w)(p \<mapsto> d)\<rparr>)"
  by (simp add: store_def)

lemma copy2_other: "copy2 w src dst = (r, w') \<Longrightarrow> q \<noteq> dst \<Longrightarrow> files w' q = files w q"
  by (auto simp: copy2_def split: option.splits if_splits dest: store_other)

lemma copy2_src: "copy2 w src dst = (r, w') \<Longrightarrow> files w' src = files w src"
  by (auto simp: copy2_def split: option.splits if_splits dest: store_other)

lemma copy2_None:
  "copy2 w src dst = (None, w') \<Longrightarrow>
     src \<noteq> dst \<and> files w src \<noteq> None \<and> files w' dst = files w src \<and> next_outcome w = Completes"
  by (auto simp: copy2_def split: option.splits if_splits dest: store_None)

lemma copy2_Completes:
  "files w src = Some d \<Longrightarrow> src \<noteq> dst \<Longrightarrow> next_outcome w = Completes \<Longrightarrow>
     copy2 w src dst = (None, (advance w)\<lparr>files := (files w)(dst \<mapsto> d)\<rparr>)"
  by (simp add: copy2_def store_Completes)

lemma create_backup_target: "create_backup self w fp = (r, w') \<Longrightarrow> files w' fp = files w fp"
  by (auto simp: create_backup_def Let_def split: if_splits prod.splits option.splits dest: copy2_src)

lemma create_backup_Inr:
  "create_backup self w fp = (Inr bp, w') \<Longrightarrow>
     bp = backup_name self w fp \<and> bp \<noteq> fp \<and> files w fp \<noteq> None \<and> files w' bp = files w fp
     \<and> next_outcome w = Completes"
  by (auto simp: create_backup_def Let_def split: if_splits prod.splits option.splits dest: copy2_None)

lemma create_backup_returns:
  "path_exists w fp \<Longrightarrow> backup_name self w fp \<noteq> fp \<Longrightarrow> next_outcome w = Completes \<Longrightarrow>
     \<exists>w'. create_backup self w fp = (Inr (backup_name self w fp), w')"
  by (auto simp: create_backup_def Let_def path_exists_def copy2_Completes)

lemma create_backup_missing:
  "\<not> path_exists w fp \<Longrightarrow> create_backup self w fp = (Inl (FileNotFoundError fp), w)"
  by (simp add: create_backup_def)

lemma write_text_other: "write_text w p s = (r, w') \<Longrightarrow> q \<noteq> p \<Longrightarrow> files w' q = files w q"
  by (auto simp: write_text_def dest: store_other)


lemma path_join_nonempty: "b \<noteq> [] \<Longrightarrow> path_join a b \<noteq> []"
  by (simp add: path_join_def)

lemma backup_name_nonempty: "backup_name self w fp \<noteq> []"
  by (simp add: backup_name_def Let_def path_join_nonempty)

section \<open>The core routine \<open>apply_edit\<close>\<close>

lemma backup_step_target: "backup_step self w fp cb = (r, w') \<Longrightarrow> files w' fp = files w fp"
  by (auto simp: backup_step_def split: if_splits prod.splits sum.splits dest: create_backup_target)

lemma backup_step_Some:
  "backup_step self w fp cb = (Inr (Some bp), w') \<Longrightarrow> cb \<and> create_backup self w fp = (Inr bp, w')"
  by (auto simp: backup_step_def split: if_splits prod.splits sum.splits)

lemma backup_step_None:
  "backup_step self w fp cb = (Inr None, w') \<Longrightarrow> \<not> cb \<and> w' = w"
  by (auto simp: backup_step_def split: if_splits prod.splits sum.splits)

lemma backup_step_Inl:
  "backup_step self w fp cb = (Inl e, w') \<Longrightarrow> cb \<and> create_backup self w fp = (Inl e, w')"
  by (auto simp: backup_step_def split: if_splits prod.splits sum.splits)

lemma on_exception_no_backup:
  "backup_path result = None \<Longrightarrow>
     on_exception result e w fp = (result\<lparr>error := Some (Raised e)\<rparr>, w)"
  by (simp add: on_exception_def)

lemma on_exception_restored:
  "on_exception result e w fp = (r, w') \<Longrightarrow> \<not> restored result \<Longrightarrow>
     restored r = (\<exists>bp. backup_path result = Some bp \<and> bp \<noteq> [] \<and> path_exists w bp
                     \<and> copy2 w bp fp = (None, w'))"
  by (auto simp: on_exception_def Let_def split: option.splits if_splits prod.splits)

lemma on_exception_fields:
  "on_exception result e w fp = (r, w') \<Longrightarrow>
     success r = success result \<and> backup_path r = backup_path result
     \<and> error r = Some (Raised e) \<and> validation r = validation result"
  by (auto simp: on_exception_def Let_def split: option.splits if_splits prod.splits)


lemma write_step_written:
  "write_text w fp new = (None, w') \<Longrightarrow>
     write_step result w fp new = (result\<lparr>success := True\<rparr>, w')"
  by (simp add: write_step_def)

lemma write_step_raised:
  "write_text w fp new = (Some e, w2) \<Longrightarrow>
     write_step result w fp new = on_exception result e w2 fp"
  by (simp add: write_step_def)

lemma apply_edit_backup_raised:
  "backup_step self w fp cb = (Inl e, w1) \<Longrightarrow>
     apply_edit P self w fp new validate cb = (initial_result\<lparr>error := Some (Raised e)\<rparr>, w1)"
  by (simp add: apply_edit_def on_exception_no_backup initial_result_def)

lemma apply_edit_rejected:
  "backup_step self w fp cb = (Inr bpo, w1) \<Longrightarrow> \<not> gate_open P validate fp new \<Longrightarrow>
     apply_edit P self w fp new validate cb =
       (initial_result\<lparr>backup_path := bpo,
          validation := Some (validate_python_syntax P new),
          error := Some (SyntaxValidationFailed (verror (validate_python_syntax P new)))\<rparr>, w1)"
  by (simp add: apply_edit_def gate_open_def Let_def)

lemma apply_edit_passed:
  "backup_step self w fp cb = (Inr bpo, w1) \<Longrightarrow> gate_open P validate fp new \<Longrightarrow>
     apply_edit P self w fp new validate cb =
       write_step (initial_result\<lparr>backup_path := bpo,
          validation := (if validate \<and> endswith fp ''.py''
                         then Some (validate_python_syntax P new) else None)\<rparr>) w1 fp new"
  by (auto simp: apply_edit_def gate_open_def Let_def initial_result_def)



lemma validate_valid_iff: "valid (validate_python_syntax P new) = (\<exists>tree. P new = Inr tree)"
  by (auto simp: validate_python_syntax_def split: sum.splits parse_error.splits)

lemma apply_edit_closed_gate_target:
  assumes "\<not> gate_open P validate fp new"
    and "apply_edit P self w fp new validate cb = (r, w')"
  shows "\<not> success r \<and> \<not> restored r \<and> files w' fp = files w fp"
proof (cases "backup_step self w fp cb")
  case (Pair b w1)
  have t: "files w1 fp = files w fp"
    using Pair by (rule backup_step_target)
  show ?thesis
  proof (cases b)
    case (Inl e)
    with Pair assms(2) t show ?thesis
      by (auto simp add: apply_edit_backup_raised initial_result_def)
  next
    case (Inr bpo)
    with Pair assms t show ?thesis
      by (auto simp add: apply_edit_rejected initial_result_def)
  qed
qed

lemma apply_edit_restored_iff:
  assumes ae: "apply_edit P self w fp new validate cb = (r, w')"
  shows "restored r =
     (\<exists>bp w1 e w2. cb \<and> create_backup self w fp = (Inr bp, w1) \<and> gate_open P validate fp new
        \<and> write_text w1 fp new = (Some e, w2) \<and> copy2 w2 bp fp = (None, w'))"
    (is "_ = ?R")
proof (cases "backup_step self w fp cb")
  case (Pair b w1)
  show ?thesis
  proof (cases b)
    case (Inl e)
    have "cb \<and> create_backup self w fp = (Inl e, w1)"
      using Pair Inl backup_step_Inl [of self w fp cb e w1] by simp
    then have "\<not> ?R" by auto
    moreover have "\<not> restored r"
      using Pair Inl ae by (auto simp: apply_edit_backup_raised initial_result_def)
    ultimately show ?thesis by simp
  next
    case (Inr bpo)
    have bs: "backup_step self w fp cb = (Inr bpo, w1)"
      using Pair Inr by simp
    show ?thesis
    proof (cases "gate_open P validate fp new")
      case False
      then have "\<not> restored r"
        using apply_edit_rejected [OF bs False] ae by (auto simp: initial_result_def)
      with False show ?thesis by auto
    next
      case True
      let ?res = "initial_result\<lparr>backup_path := bpo,
          validation := (if validate \<and> endswith fp ''.py''
                         then Some (validate_python_syntax P new) else None)\<rparr>"
      have ws: "write_step ?res w1 fp new = (r, w')"
        using apply_edit_passed [OF bs True] ae by simp
      show ?thesis
      proof (cases "write_text w1 fp new")
        case (Pair eo w2)
        show ?thesis
        proof (cases eo)
          case None
          then have "\<not> restored r"
            using ws Pair by (auto simp: write_step_written initial_result_def)
          moreover have "\<not> ?R"
          proof
            assume ?R
            then obtain bp w1' e w2' where
              "cb" "create_backup self w fp = (Inr bp, w1')"
              "write_text w1' fp new = (Some e, w2')" by blast
            moreover from this(1,2) bs have "w1' = w1" by (auto simp: backup_step_def)
            ultimately show False using Pair None by simp
          qed
          ultimately show ?thesis by simp
        next
          case (Some e)
          have oe: "on_exception ?res e w2 fp = (r, w')"
            using ws Pair Some by (simp add: write_step_raised)
          have r1: "restored r =
             (\<exists>bp. bpo = Some bp \<and> bp \<noteq> [] \<and> path_exists w2 bp \<and> copy2 w2 bp fp = (None, w'))"
            using on_exception_restored [OF oe] by (simp add: initial_result_def)
          show ?thesis
          proof
            assume "restored r"
            then obtain bp where bp: "bpo = Some bp" "copy2 w2 bp fp = (None, w')"
              using r1 by blast
            have "cb \<and> create_backup self w fp = (Inr bp, w1)"
              using bs bp(1) backup_step_Some [of self w fp cb bp w1] by simp
            with True Pair Some bp(2) show ?R by blast
          next
            assume ?R
            then obtain bp w1' e' w2' where h:
              "cb" "create_backup self w fp = (Inr bp, w1')"
              "write_text w1' fp new = (Some e', w2')" "copy2 w2' bp fp = (None, w')" by blast
            from h(1,2) bs have eq: "w1' = w1" "bpo = Some bp" by (auto simp: backup_step_def)
            with h(3) Pair Some have w2: "w2' = w2" by simp
            have "bp \<noteq> []"
              using create_backup_Inr [OF h(2)] backup_name_nonempty [of self w fp] by simp
            moreover have "path_exists w2 bp"
              using copy2_None [OF h(4)] w2 by (simp add: path_exists_def)
            ultimately show "restored r"
              using r1 eq(2) h(4) w2 by simp
          qed
        qed
      qed
    qed
  qed
qed

lemma restore_gives_back:
  assumes "create_backup self w fp = (Inr bp, w1)"
    and "write_text w1 fp new = (eo, w2)"
    and "copy2 w2 bp fp = (None, w')"
  shows "files w' fp = files w fp"
proof -
  have ne: "bp \<noteq> fp" and cp: "files w1 bp = files w fp"
    using create_backup_Inr [OF assms(1)] by blast+
  have "files w2 bp = files w1 bp"
    using assms(2) ne by (rule write_text_other)
  moreover have "files w' fp = files w2 bp"
    using copy2_None [OF assms(3)] by simp
  ultimately show ?thesis using cp by simp
qed

lemma apply_edit_restored_fields:
  assumes ae: "apply_edit P self w fp new validate cb = (r, w')" and "restored r"
  shows "\<not> success r \<and> backup_path r \<noteq> None \<and> (\<exists>e. error r = Some (Raised e))"
proof -
  from apply_edit_restored_iff [OF ae] assms(2) obtain bp w1 e w2 where h:
    "cb" "create_backup self w fp = (Inr bp, w1)" "gate_open P validate fp new"
    "write_text w1 fp new = (Some e, w2)" "copy2 w2 bp fp = (None, w')" by blast
  have bs: "backup_step self w fp cb = (Inr (Some bp), w1)"
    using h(1,2) by (simp add: backup_step_def)
  have "on_exception (initial_result\<lparr>backup_path := Some bp,
          validation := (if validate \<and> endswith fp ''.py''
                         then Some (validate_python_syntax P new) else None)\<rparr>) e w2 fp = (r, w')"
    using apply_edit_passed [OF bs h(3)] ae h(4) by (simp add: write_step_raised)
  from on_exception_fields [OF this] show ?thesis
    by (simp add: initial_result_def)
qed


subsection \<open>Evaluation of the sample data\<close>

lemmas path_defs = basename_def dirname_def path_join_def startswith_def endswith_def
  replace_char_def backup_name_def Let_def
lemmas io_defs = path_exists_def read_text_def store_def write_text_def copy2_def
  next_outcome_def advance_def Let_def
lemmas editor_defs = create_backup_def backup_step_def validate_python_syntax_def
  on_exception_def write_step_def apply_edit_def initial_result_def gate_open_def Let_def

lemma py_world_sel:
  "files (py_world c s) = [''m.py'' \<mapsto> Text c]" "now (py_world c s) = ''20240101_120000''"
  "io_script (py_world c s) = s"
  by (simp_all add: py_world_def)

lemma backup_name_m_py:
  "backup_name editor0 (py_world c s) ''m.py'' = ''backups/m.py.20240101_120000.bak''"
  by (simp add: path_defs py_world_sel editor0_def)





subsection \<open>Validation before the write\<close>





subsection \<open>The backup comes first\<close>

text \<open>
  C6. With \<open>create_backup\<close> set, the backup is made before the new content is
  validated: when \<open>create_backup\<close> has returned a path (the file exists and the copy
  completes), the result reports that path whatever becomes of the edit, and when the
  validation gate then refuses the edit the call fails, the backup exists with the
  content of the file, and the file is as it was. A reported backup does not mean an
  applied edit.
\<close>

theorem backup_precedes_validation:
  assumes "create_backup self w fp = (Inr bp, w1)"
    and "apply_edit P self w fp new validate True = (r, w')"
  shows "backup_path r = Some bp \<and> files w fp \<noteq> None \<and>
     (\<not> gate_open P validate fp new \<longrightarrow>
        \<not> success r \<and> w' = w1 \<and> files w' bp = files w fp \<and> files w' fp = files w fp \<and>
        error r = Some (SyntaxValidationFailed (verror (validate_python_syntax P new))))"
proof -
  have bs: "backup_step self w fp True = (Inr (Some bp), w1)"
    using assms(1) by (simp add: backup_step_def)
  have ex: "files w fp \<noteq> None" and cp: "files w1 bp = files w fp"
    using create_backup_Inr [OF assms(1)] by blast+
  have tg: "files w1 fp = files w fp"
    using assms(1) by (rule create_backup_target)
  have rej: "\<not> success r \<and> w' = w1 \<and> backup_path r = Some bp \<and>
        error r = Some (SyntaxValidationFailed (verror (validate_python_syntax P new)))"
    if "\<not> gate_open P validate fp new"
    using apply_edit_rejected [OF bs that] assms(2) by (auto simp: initial_result_def)
  have pas: "backup_path r = Some bp" if g: "gate_open P validate fp new"
  proof (cases "write_text w1 fp new")
    case (Pair e w2)
    show ?thesis
    proof (cases e)
      case None
      with Pair assms(2) show ?thesis
        by (auto simp: apply_edit_passed [OF bs g] write_step_written)
    next
      case (Some x)
      with Pair assms(2) have "on_exception (initial_result\<lparr>backup_path := Some bp,
          validation := (if validate \<and> endswith fp ''.py''
                         then Some (validate_python_syntax P new) else None)\<rparr>) x w2 fp = (r, w')"
        by (simp add: apply_edit_passed [OF bs g] write_step_raised)
      from on_exception_fields [OF this] show ?thesis by simp
    qed
  qed
  show ?thesis
    using ex cp tg rej pas by blast
qed

theorem backup_precedes_validation_witness:
  "fst (create_backup editor0 (py_world (''x = 1'' @ [NL]) []) ''m.py'') =
       Inr ''backups/m.py.20240101_120000.bak''
   \<and> \<not> gate_open sample_parse True ''m.py'' (''x = ('' @ [NL])
   \<and> backup_path (fst (apply_edit sample_parse editor0 (py_world (''x = 1'' @ [NL]) []) ''m.py''
          (''x = ('' @ [NL]) True True)) = Some ''backups/m.py.20240101_120000.bak''
   \<and> \<not> success (fst (apply_edit sample_parse editor0 (py_world (''x = 1'' @ [NL]) []) ''m.py''
          (''x = ('' @ [NL]) True True))
   \<and> files (snd (apply_edit sample_parse editor0 (py_world (''x = 1'' @ [NL]) []) ''m.py''
          (''x = ('' @ [NL]) True True)) ''backups/m.py.20240101_120000.bak'' =
       Some (Text (''x = 1'' @ [NL]))
   \<and> files (snd (apply_edit sample_parse editor0 (py_world (''x = 1'' @ [NL]) []) ''m.py''
          (''x = ('' @ [NL]) True True)) ''m.py'' = Some (Text (''x = 1'' @ [NL]))"
proof -
  let ?w = "py_world (''x = 1'' @ [NL]) []"
  let ?new = "''x = ('' @ [NL]"
  let ?AE = "apply_edit sample_parse editor0 ?w ''m.py'' ?new True True"
  let ?CB = "create_backup editor0 ?w ''m.py''"
  have ae: "?AE = (fst ?AE, snd ?AE)"
    by simp
  have c: "fst ?CB = Inr ''backups/m.py.20240101_120000.bak''"
    by (simp add: create_backup_def backup_name_m_py io_defs py_world_sel)
  then have cb: "?CB = (Inr ''backups/m.py.20240101_120000.bak'', snd ?CB)"
    by (metis prod.collapse)
  have g: "\<not> gate_open sample_parse True ''m.py'' ?new"
    by (simp add: gate_open_def endswith_def validate_python_syntax_def sample_parse_def)
  have f: "files ?w ''m.py'' = Some (Text (''x = 1'' @ [NL]))"
    by (simp add: py_world_sel)
  have "backup_path (fst ?AE) = Some ''backups/m.py.20240101_120000.bak'' \<and>
      \<not> success (fst ?AE) \<and>
      files (snd ?AE) ''backups/m.py.20240101_120000.bak'' = files ?w ''m.py'' \<and>
      files (snd ?AE) ''m.py'' = files ?w ''m.py''"
    using backup_precedes_validation [OF cb ae] g
    by blast
  then show ?thesis
    using c g f by simp
qed


subsection \<open>Rollback\<close>

text \<open>
  C7. The result is marked \<open>restored\<close> exactly when a backup was made, the gate let
  the edit through, the write of the new content raised, and the copy of the backup
  over the file then completed; the file then holds what it held before the call. An
  edit that the validation gate refuses is never restored, and nothing is written.
\<close>

theorem rollback_only_after_failed_write:
  assumes ae: "apply_edit P self w fp new validate cb = (r, w')"
  shows "(restored r =
       (\<exists>bp w1 e w2. cb \<and> create_backup self w fp = (Inr bp, w1)
          \<and> gate_open P validate fp new
          \<and> write_text w1 fp new = (Some e, w2) \<and> copy2 w2 bp fp = (None, w')))
     \<and> (restored r \<longrightarrow> \<not> success r \<and> backup_path r \<noteq> None \<and> files w' fp = files w fp)
     \<and> (\<not> gate_open P validate fp new \<longrightarrow> \<not> restored r \<and> files w' fp = files w fp)"
proof -
  have a: "\<not> success r \<and> backup_path r \<noteq> None \<and> files w' fp = files w fp" if "restored r"
  proof -
    from apply_edit_restored_iff [OF ae] that obtain bp w1 e w2 where h:
      "create_backup self w fp = (Inr bp, w1)"
      "write_text w1 fp new = (Some e, w2)" "copy2 w2 bp fp = (None, w')" by blast
    show ?thesis
      using apply_edit_restored_fields [OF ae that] restore_gives_back [OF h] by simp
  qed
  have b: "\<not> restored r \<and> files w' fp = files w fp" if "\<not> gate_open P validate fp new"
    using apply_edit_closed_gate_target [OF that ae] by simp
  show ?thesis
    using apply_edit_restored_iff [OF ae] a b by blast
qed

theorem rollback_only_after_failed_write_witness:
  "restored (fst (apply_edit sample_parse editor0
        (py_world (''x = 1'' @ [NL]) [Completes, Raises_leaving (Text ''x''), Completes])
        ''m.py'' (''x = 2'' @ [NL]) True True))
   \<and> \<not> success (fst (apply_edit sample_parse editor0
        (py_world (''x = 1'' @ [NL]) [Completes, Raises_leaving (Text ''x''), Completes])
        ''m.py'' (''x = 2'' @ [NL]) True True))
   \<and> files (snd (apply_edit sample_parse editor0
        (py_world (''x = 1'' @ [NL]) [Completes, Raises_leaving (Text ''x''), Completes])
        ''m.py'' (''x = 2'' @ [NL]) True True)) ''m.py'' = Some (Text (''x = 1'' @ [NL]))
   \<and> \<not> gate_open sample_parse True ''m.py'' (''x = ('' @ [NL])
   \<and> \<not> restored (fst (apply_edit sample_parse editor0
        (py_world (''x = 1'' @ [NL]) [Completes, Raises_leaving (Text ''x''), Completes])
        ''m.py'' (''x = ('' @ [NL]) True True))"
proof -
  let ?w = "py_world (''x = 1'' @ [NL]) [Completes, Raises_leaving (Text ''x''), Completes]"
  let ?A = "apply_edit sample_parse editor0 ?w ''m.py'' (''x = 2'' @ [NL]) True True"
  let ?B = "apply_edit sample_parse editor0 ?w ''m.py'' (''x = ('' @ [NL]) True True"
  have a: "?A = (fst ?A, snd ?A)" and b: "?B = (fst ?B, snd ?B)"
    by simp_all
  have r: "restored (fst ?A)"
    by (simp add: editor_defs backup_name_m_py io_defs py_world_sel sample_parse_def endswith_def)
  have g: "\<not> gate_open sample_parse True ''m.py'' (''x = ('' @ [NL])"
    by (simp add: gate_open_def endswith_def validate_python_syntax_def sample_parse_def)
  have f: "files ?w ''m.py'' = Some (Text (''x = 1'' @ [NL]))"
    by (simp add: py_world_sel)
  show ?thesis
    using rollback_only_after_failed_write [OF a] rollback_only_after_failed_write [OF b] r g f
    by simp
qed

section \<open>Substring search and replacement\<close>








lemma endswith_iff: "endswith s p = (\<exists>a. s = a @ p)"
proof
  assume "endswith s p"
  then have "s = take (length s - length p) s @ p"
    by (metis append_take_drop_id endswith_def)
  then show "\<exists>a. s = a @ p" ..
next
  assume "\<exists>a. s = a @ p"
  then show "endswith s p" by (auto simp: endswith_def)
qed

section \<open>Reading a file\<close>


lemma universal_newlines_free: "CR \<notin> set (universal_newlines s)"
  by (induction s rule: universal_newlines.induct) auto

lemma read_text_Text:
  "files w fp = Some (Text raw) \<Longrightarrow> read_text w fp = Inr (universal_newlines raw)"
  by (simp add: read_text_def)

lemma read_text_Inr_iff:
  "(read_text w fp = Inr c) = (\<exists>raw. files w fp = Some (Text raw) \<and> c = universal_newlines raw)"
  by (auto simp: read_text_def split: option.splits file_data.splits)

section \<open>Substring replacement: \<open>apply_partial_edit\<close>\<close>










section \<open>Backup and comparison\<close>

lemma basename_no_slash: "CHR ''/'' \<notin> set (basename p)"
proof -
  have "\<forall>c \<in> set (takeWhile (\<lambda>c. c \<noteq> CHR ''/'') (rev p)). c \<noteq> CHR ''/''"
    by (auto dest: set_takeWhileD)
  then show ?thesis
    by (auto simp: basename_def)
qed

lemma basename_append:
  assumes "CHR ''/'' \<notin> set b" and "a = [] \<or> last a = CHR ''/''"
  shows "basename (a @ b) = b"
proof -
  have "takeWhile (\<lambda>c. c \<noteq> CHR ''/'') (rev b @ rev a) =
      rev b @ takeWhile (\<lambda>c. c \<noteq> CHR ''/'') (rev a)"
    using assms(1) by (intro takeWhile_append2) auto
  moreover have "takeWhile (\<lambda>c. c \<noteq> CHR ''/'') (rev a) = []"
    using assms(2) by (cases "rev a") (auto simp: last_rev [symmetric] hd_rev)
  ultimately show ?thesis
    by (simp add: basename_def)
qed

lemma endswith_slash_last: "endswith a ''/'' \<Longrightarrow> a \<noteq> [] \<and> last a = CHR ''/''"
  by (auto simp: endswith_iff)

lemma basename_path_join:
  assumes "CHR ''/'' \<notin> set b" and "b \<noteq> []"
  shows "basename (path_join a b) = b"
proof -
  have ns: "\<not> startswith b ''/''"
    using assms by (cases b) (auto simp: startswith_def)
  show ?thesis
  proof (cases "a = [] \<or> endswith a ''/''")
    case True
    then have "a = [] \<or> last a = CHR ''/''"
      using endswith_slash_last by blast
    with True ns assms(1) show ?thesis
      by (simp add: path_join_def basename_append)
  next
    case False
    have "basename ((a @ ''/'') @ b) = b"
      using assms(1) by (intro basename_append) simp_all
    with False ns show ?thesis
      by (simp add: path_join_def)
  qed
qed

text \<open>With a time stamp free of \<open>/\<close>, as \<open>strftime("%Y%m%d_%H%M%S")\<close> makes it, the backup
  is never the file itself, and the backup of an existing file fails only when the copy
  does.\<close>

lemma backup_name_differs:
  assumes "CHR ''/'' \<notin> set (now w)"
  shows "backup_name self w fp \<noteq> fp"
proof
  assume eq: "backup_name self w fp = fp"
  let ?b = "basename fp @ ''.'' @ now w @ ''.bak''"
  have "CHR ''/'' \<notin> set ?b"
    using assms basename_no_slash [of fp] by simp
  then have "basename (backup_name self w fp) = ?b"
    by (simp add: backup_name_def Let_def basename_path_join)
  with eq have "basename fp = ?b" by simp
  then have "length (basename fp) = length ?b" by simp
  then show False by simp
qed

lemma create_backup_of_existing:
  assumes "path_exists w fp" and "CHR ''/'' \<notin> set (now w)" and "next_outcome w = Completes"
  shows "\<exists>w'. create_backup self w fp = (Inr (backup_name self w fp), w')"
  using create_backup_returns [OF assms(1) backup_name_differs [OF assms(2)] assms(3)] .

lemma bin_world_sel:
  "files bin_world = [''logo.png'' \<mapsto> Undecodable]" "now bin_world = ''20240101_120000''"
  "io_script bin_world = []"
  by (simp_all add: bin_world_def)

lemma backup_name_logo:
  "backup_name editor0 bin_world ''logo.png'' = ''backups/logo.png.20240101_120000.bak''"
  by (simp add: path_defs bin_world_sel editor0_def)


text \<open>
  C8, as it stands, does not hold for every file that exists: \<open>compare_with_backup\<close>
  reads both files as UTF-8 text, and on a file that does not decode the read raises, the
  handler stores the error, and \<open>identical\<close> stays \<open>False\<close>, although the backup is a
  faithful copy.
\<close>

theorem compare_undecodable_counterexample:
  "path_exists bin_world ''logo.png''
   \<and> fst (create_backup editor0 bin_world ''logo.png'') =
       Inr ''backups/logo.png.20240101_120000.bak''
   \<and> \<not> identical (compare_with_backup (snd (create_backup editor0 bin_world ''logo.png''))
          ''logo.png'' ''backups/logo.png.20240101_120000.bak'')"
  by (simp add: create_backup_def backup_name_logo io_defs bin_world_sel compare_with_backup_def)


text \<open>
  C8, amended. For a path that does not exist \<open>create_backup\<close> raises
  \<open>FileNotFoundError\<close> and changes nothing. When \<open>create_backup\<close> returns a backup
  path, the file exists, the backup holds what the file holds, and the comparison that
  follows reports \<open>identical\<close> exactly when the file holds text that decodes as UTF-8;
  for a file that does not decode it reports the decoding error instead.
\<close>

theorem create_backup_then_compare:
  "(\<not> path_exists w fp \<longrightarrow> create_backup self w fp = (Inl (FileNotFoundError fp), w))
   \<and> (create_backup self w fp = (Inr bp, w1) \<longrightarrow>
        path_exists w fp \<and> files w1 bp = files w1 fp
        \<and> identical (compare_with_backup w1 fp bp) = (\<exists>c. files w fp = Some (Text c))
        \<and> (files w fp = Some Undecodable \<longrightarrow>
             cmp_error (compare_with_backup w1 fp bp) = Some UnicodeDecodeError))"
proof -
  have b: "path_exists w fp \<and> files w1 bp = files w1 fp
        \<and> identical (compare_with_backup w1 fp bp) = (\<exists>c. files w fp = Some (Text c))
        \<and> (files w fp = Some Undecodable \<longrightarrow>
             cmp_error (compare_with_backup w1 fp bp) = Some UnicodeDecodeError)"
    if cb: "create_backup self w fp = (Inr bp, w1)"
  proof -
    have e: "files w fp \<noteq> None" and cp: "files w1 bp = files w fp"
      using create_backup_Inr [OF cb] by blast+
    have tg: "files w1 fp = files w fp"
      using cb by (rule create_backup_target)
    obtain d where d: "files w fp = Some d"
      using e by blast
    show ?thesis
    proof (cases d)
      case (Text c)
      with d cp tg e show ?thesis
        by (simp add: compare_with_backup_def read_text_def path_exists_def)
    next
      case Undecodable
      with d cp tg e show ?thesis
        by (simp add: compare_with_backup_def read_text_def path_exists_def)
    qed
  qed
  show ?thesis
    using b create_backup_missing [of w fp self] by blast
qed


theorem create_backup_then_compare_witness:
  "fst (create_backup editor0 (py_world (''x = 1'' @ [NL]) []) ''m.py'') =
       Inr ''backups/m.py.20240101_120000.bak''
   \<and> identical (compare_with_backup (snd (create_backup editor0 (py_world (''x = 1'' @ [NL]) [])
        ''m.py'')) ''m.py'' ''backups/m.py.20240101_120000.bak'')
   \<and> \<not> path_exists (py_world (''x = 1'' @ [NL]) []) ''gone.py''
   \<and> create_backup editor0 (py_world (''x = 1'' @ [NL]) []) ''gone.py'' =
       (Inl (FileNotFoundError ''gone.py''), py_world (''x = 1'' @ [NL]) [])
   \<and> files bin_world ''logo.png'' = Some Undecodable
   \<and> fst (create_backup editor0 bin_world ''logo.png'') =
       Inr ''backups/logo.png.20240101_120000.bak''
   \<and> cmp_error (compare_with_backup (snd (create_backup editor0 bin_world ''logo.png''))
        ''logo.png'' ''backups/logo.png.20240101_120000.bak'') = Some UnicodeDecodeError"
proof -
  let ?w = "py_world (''x = 1'' @ [NL]) []"
  let ?CB = "create_backup editor0 ?w ''m.py''"
  let ?CL = "create_backup editor0 bin_world ''logo.png''"
  have c: "fst ?CB = Inr ''backups/m.py.20240101_120000.bak''"
    by (simp add: create_backup_def backup_name_m_py io_defs py_world_sel)
  then have cb: "?CB = (Inr ''backups/m.py.20240101_120000.bak'', snd ?CB)"
    by (metis prod.collapse)
  have l: "fst ?CL = Inr ''backups/logo.png.20240101_120000.bak''"
    by (simp add: create_backup_def backup_name_logo io_defs bin_world_sel)
  then have cl: "?CL = (Inr ''backups/logo.png.20240101_120000.bak'', snd ?CL)"
    by (metis prod.collapse)
  have f: "\<exists>c. files ?w ''m.py'' = Some (Text c)"
    by (simp add: py_world_sel)
  have u: "files bin_world ''logo.png'' = Some Undecodable"
    by (simp add: bin_world_sel)
  have g: "\<not> path_exists ?w ''gone.py''"
    by (simp add: path_exists_def py_world_sel)
  have "identical (compare_with_backup (snd ?CB) ''m.py'' ''backups/m.py.20240101_120000.bak'')"
    using create_backup_then_compare [of ?w "''m.py''" editor0
        "''backups/m.py.20240101_120000.bak''" "snd ?CB"] cb f
    by blast
  moreover have "create_backup editor0 ?w ''gone.py'' = (Inl (FileNotFoundError ''gone.py''), ?w)"
    using create_backup_then_compare [of ?w "''gone.py''" editor0] g
    by blast
  moreover have "cmp_error (compare_with_backup (snd ?CL) ''logo.png''
      ''backups/logo.png.20240101_120000.bak'') = Some UnicodeDecodeError"
    using create_backup_then_compare [of bin_world "''logo.png''" editor0
        "''backups/logo.png.20240101_120000.bak''" "snd ?CL"] cl u
    by blast
  ultimately show ?thesis
    using c g u l by simp
qed

section \<open>Line replacement: \<open>apply_line_edit\<close>\<close>



lemma concat_readlines: "concat (readlines s) = s"
  by (induction s rule: readlines.induct) (auto split: list.splits)







section \<open>Function replacement: \<open>apply_function_edit\<close>\<close>
















lemma walk_async_f:
  "walk async_f_tree =
     [async_f_tree, Node (AsyncFunctionDef ''f'') 1 2 [arguments, return_stmt 2],
      arguments, return_stmt 2, Node (OtherNode ''Constant'') 2 2 []]"
  by (simp add: async_f_tree_def arguments_def return_stmt_def walk_def)

lemma sample_parse_async_f: "sample_parse async_f_source = Inr async_f_tree"
  by (simp add: sample_parse_def async_f_source_def two_f_source_def)



lemma universal_newlines_async_f: "universal_newlines async_f_source = async_f_source"
  by (simp add: async_f_source_def)


















text \<open>
  C10. On a file whose text, as it is read, parses to \<open>tree\<close>: when every node of the
  tree that bears the name as a function definition is an \<open>ast.AsyncFunctionDef\<close>, the
  call fails with the error of the function not found, and the world is as it was: the
  test \<open>isinstance(node, ast.FunctionDef)\<close> does not hold of a coroutine definition.
\<close>

theorem apply_function_edit_skips_async:
  assumes f: "files w fp = Some (Text c)" and p: "P (universal_newlines c) = Inr tree"
    and only_async:
      "\<forall>n \<in> set (walk tree). def_name n = Some name \<longrightarrow> node_class n = AsyncFunctionDef name"
  shows "apply_function_edit P self w fp name new validate cb =
     (initial_result\<lparr>error := Some (FunctionNotFound name)\<rparr>, w)"
proof -
  have "\<not> is_function_named name n" if "n \<in> set (walk tree)" for n
  proof
    assume a: "is_function_named name n"
    then have "def_name n = Some name"
      by (cases n) (simp add: is_function_named_def)
    with only_async that have "node_class n = AsyncFunctionDef name" by blast
    with a show False by (simp add: is_function_named_def)
  qed
  then have "find (is_function_named name) (walk tree) = None"
    by (simp add: find_None_iff)
  with f p show ?thesis
    by (simp add: apply_function_edit_def read_text_Text)
qed

theorem apply_function_edit_skips_async_witness:
  "files (py_world async_f_source []) ''m.py'' = Some (Text async_f_source)
   \<and> sample_parse async_f_source = Inr async_f_tree
   \<and> walk async_f_tree ! 1 = Node (AsyncFunctionDef ''f'') 1 2 [arguments, return_stmt 2]
   \<and> apply_function_edit sample_parse editor0 (py_world async_f_source []) ''m.py'' ''f''
        new_f_code True True =
       (initial_result\<lparr>error := Some (FunctionNotFound ''f'')\<rparr>, py_world async_f_source [])"
proof -
  have f: "files (py_world async_f_source []) ''m.py'' = Some (Text async_f_source)"
    by (simp add: py_world_sel)
  have p: "sample_parse (universal_newlines async_f_source) = Inr async_f_tree"
    by (simp add: universal_newlines_async_f sample_parse_async_f)
  have only_async: "\<forall>n \<in> set (walk async_f_tree).
      def_name n = Some ''f'' \<longrightarrow> node_class n = AsyncFunctionDef ''f''"
    unfolding walk_async_f
    by (simp add: async_f_tree_def arguments_def return_stmt_def)
  have n1: "walk async_f_tree ! 1 = Node (AsyncFunctionDef ''f'') 1 2 [arguments, return_stmt 2]"
    unfolding walk_async_f by simp
  show ?thesis
    using apply_function_edit_skips_async [where P = sample_parse and name = "''f''"
        and tree = async_f_tree, OF f p only_async] f
      sample_parse_async_f n1
    by simp
qed

section \<open>The fix run\<close>






































end
